theory Spec2Isabelle
  imports
    Main
    "HOL-Library.Char_ord"
    "HOL-Library.List_Lexorder"
    "HOL-Library.AList"
    "HOL-Library.Multiset"
begin

section \<open>Python values used by both scripts\<close>

text \<open>
  Strings are \<^typ>\<open>string\<close>, ordered lexicographically by character code as Python orders
  \<^verbatim>\<open>str\<close>. The exceptions that the two scripts can meet are the constructors of
  \<open>exn\<close>; \<open>KeyboardInterrupt\<close> stands for the exceptions that derive from
  \<^verbatim>\<open>BaseException\<close> only and therefore pass an \<^verbatim>\<open>except Exception\<close> clause.
\<close>

datatype exn =
    AttributeError
  | ValueError
  | IndexError
  | FileNotFoundError
  | NotADirectoryError
  | TimeoutExpired
  | OtherError string
  | KeyboardInterrupt

definition is_Exception :: "exn \<Rightarrow> bool" where
  "is_Exception e = (e \<noteq> KeyboardInterrupt)"

text \<open>\<^verbatim>\<open>s.endswith(suffix)\<close>\<close>

definition endswith :: "string \<Rightarrow> string \<Rightarrow> bool" where
  "endswith s suffix =
     (length suffix \<le> length s \<and> drop (length s - length suffix) s = suffix)"

fun strip_prefix :: "string \<Rightarrow> string \<Rightarrow> string option" where
  "strip_prefix [] s = Some s"
| "strip_prefix (p # ps) [] = None"
| "strip_prefix (p # ps) (c # cs) = (if p = c then strip_prefix ps cs else None)"

text \<open>
  \<^verbatim>\<open>re.match(f"ontology/{type}/([^/]*)/([^/]*)", source)\<close>: the match is anchored at the
  start of \<open>source\<close>; each group takes the longest run of characters other than \<open>/\<close>,
  and a \<open>/\<close> has to follow the first group. The result is the pair of the two groups,
  \<open>None\<close> when there is no match.
\<close>

definition re_match :: "string \<Rightarrow> string \<Rightarrow> (string \<times> string) option" where
  "re_match type source =
     (case strip_prefix (''ontology/'' @ type @ ''/'') source of
        None \<Rightarrow> None
      | Some rest \<Rightarrow>
          (case dropWhile (\<lambda>c. c \<noteq> CHR ''/'') rest of
             [] \<Rightarrow> None
           | _ # rest' \<Rightarrow>
               Some (takeWhile (\<lambda>c. c \<noteq> CHR ''/'') rest,
                     takeWhile (\<lambda>c. c \<noteq> CHR ''/'') rest')))"

text \<open>
  \<^verbatim>\<open>xs.sort(reverse=True)\<close> on a list of strings: the stable ascending sort of the
  reversed list, reversed.
\<close>

definition sort_reverse :: "string list \<Rightarrow> string list" where
  "sort_reverse xs = rev (sort_key (\<lambda>x. x) (rev xs))"

section \<open>The index data\<close>

record ontology =
  name :: string
  versions :: "string list"

datatype bucket =
  Core | Other | Demo | Actor | Observation | Process | Resource | Supplementary

type_synonym data = "bucket \<Rightarrow> ontology list"

text \<open>
  The dictionary \<open>ontologies\<close> keeps its keys in insertion order; it is an association
  list with one pair per key. One pass of the scanning loop's body after the name and
  the version have been extracted:
  \<^verbatim>\<open>
  if not ontologies.get(name):
      ontologies[name] = {"name": name, "versions": []}
  ontologies[name]["versions"].append(version)
  ontologies[name]["versions"].sort(reverse=True)
  \<close>
  A stored entry is a dictionary with two keys, hence never falsy: the test is true
  exactly when the key is absent.
\<close>

definition add_version ::
  "(string \<times> ontology) list \<Rightarrow> string \<Rightarrow> string \<Rightarrow> (string \<times> ontology) list" where
  "add_version ontologies nm version =
     (let ontologies' =
            (if map_of ontologies nm = None
             then AList.update nm \<lparr>name = nm, versions = []\<rparr> ontologies
             else ontologies)
      in AList.map_entry nm
           (\<lambda>entry. entry\<lparr>versions := sort_reverse (versions entry @ [version])\<rparr>)
           ontologies')"

definition append_to :: "data \<Rightarrow> bucket \<Rightarrow> ontology \<Rightarrow> data" where
  "append_to data b ontology = data(b := data b @ [ontology])"

subsection \<open>build_index.py\<close>

definition index_core :: "string list" where
  "index_core = [''actorODP'', ''observation'', ''processODP'', ''product'', ''resourceODP'',
                 ''location'']"

definition index_core_actor :: "string list" where
  "index_core_actor = [''actorODP'']"

definition index_core_process :: "string list" where
  "index_core_process = [''processODP'']"

definition index_core_resource :: "string list" where
  "index_core_resource = [''resourceODP'', ''product'']"

definition index_core_obsrvation :: "string list" where
  "index_core_obsrvation = [''observation'']"

definition index_core_supplementary :: "string list" where
  "index_core_supplementary = [''location'']"

fun index_scan ::
  "string \<Rightarrow> string list \<Rightarrow> (string \<times> ontology) list \<Rightarrow> exn + (string \<times> ontology) list" where
  "index_scan type [] ontologies = Inr ontologies"
| "index_scan type (source # sources) ontologies =
     (if \<not> endswith source ''.ttl'' then index_scan type sources ontologies
      else case re_match type source of
             None \<Rightarrow> Inl AttributeError
           | Some (nm, version) \<Rightarrow>
               index_scan type sources (add_version ontologies nm version))"

definition index_place :: "string \<Rightarrow> data \<Rightarrow> ontology \<Rightarrow> data" where
  "index_place type data ontology =
     (if type = ''demo'' then append_to data Demo ontology
      else if name ontology \<in> set index_core then
        (let d0 = append_to data Core ontology;
             d1 = (if name ontology \<in> set index_core_actor
                   then append_to d0 Actor ontology else d0);
             d2 = (if name ontology \<in> set index_core_process
                   then append_to d1 Process ontology else d1);
             d3 = (if name ontology \<in> set index_core_resource
                   then append_to d2 Resource ontology else d2);
             d4 = (if name ontology \<in> set index_core_obsrvation
                   then append_to d3 Observation ontology else d3)
         in if name ontology \<in> set index_core_supplementary
            then append_to d4 Supplementary ontology else d4)
      else append_to data Other ontology)"

fun index_split :: "string \<Rightarrow> (string \<times> ontology) list \<Rightarrow> data \<Rightarrow> data" where
  "index_split type [] data = data"
| "index_split type ((nm, entry) # ontologies) data =
     index_split type ontologies
       (index_place type data \<lparr>name = nm, versions = versions entry\<rparr>)"

fun index_types :: "(string \<Rightarrow> string list) \<Rightarrow> string list \<Rightarrow> data \<Rightarrow> exn + data" where
  "index_types glob [] data = Inr data"
| "index_types glob (type # types) data =
     (case index_scan type (glob (''ontology/'' @ type @ ''/*/*/*'')) [] of
        Inl e \<Rightarrow> Inl e
      | Inr ontologies \<Rightarrow> index_types glob types (index_split type ontologies data))"

definition index_data :: "(string \<Rightarrow> string list) \<Rightarrow> exn + data" where
  "index_data glob =
     (case index_types glob [''modules'', ''demo''] (\<lambda>b. []) of
        Inl e \<Rightarrow> Inl e
      | Inr data \<Rightarrow> Inr (\<lambda>b. sort_key name (data b)))"

subsection \<open>build_local.py\<close>

text \<open>The second copy of the aggregation, as \<^verbatim>\<open>create_index_file\<close> of the local driver has it.\<close>

definition local_core :: "string list" where
  "local_core = [''actorODP'', ''observation'', ''processODP'', ''product'', ''resourceODP'',
                 ''location'']"

definition local_core_actor :: "string list" where
  "local_core_actor = [''actorODP'']"

definition local_core_process :: "string list" where
  "local_core_process = [''processODP'']"

definition local_core_resource :: "string list" where
  "local_core_resource = [''resourceODP'', ''product'']"

definition local_core_observation :: "string list" where
  "local_core_observation = [''observation'']"

definition local_core_supplementary :: "string list" where
  "local_core_supplementary = [''location'']"

fun local_scan ::
  "string \<Rightarrow> string list \<Rightarrow> (string \<times> ontology) list \<Rightarrow> exn + (string \<times> ontology) list" where
  "local_scan type [] ontologies = Inr ontologies"
| "local_scan type (source # sources) ontologies =
     (if \<not> endswith source ''.ttl'' then local_scan type sources ontologies
      else case re_match type source of
             None \<Rightarrow> Inl AttributeError
           | Some (nm, version) \<Rightarrow>
               local_scan type sources (add_version ontologies nm version))"

definition local_place :: "string \<Rightarrow> data \<Rightarrow> ontology \<Rightarrow> data" where
  "local_place type data ontology =
     (if type = ''demo'' then append_to data Demo ontology
      else if name ontology \<in> set local_core then
        (let d0 = append_to data Core ontology;
             d1 = (if name ontology \<in> set local_core_actor
                   then append_to d0 Actor ontology else d0);
             d2 = (if name ontology \<in> set local_core_process
                   then append_to d1 Process ontology else d1);
             d3 = (if name ontology \<in> set local_core_resource
                   then append_to d2 Resource ontology else d2);
             d4 = (if name ontology \<in> set local_core_observation
                   then append_to d3 Observation ontology else d3)
         in if name ontology \<in> set local_core_supplementary
            then append_to d4 Supplementary ontology else d4)
      else append_to data Other ontology)"

fun local_split :: "string \<Rightarrow> (string \<times> ontology) list \<Rightarrow> data \<Rightarrow> data" where
  "local_split type [] data = data"
| "local_split type ((nm, entry) # ontologies) data =
     local_split type ontologies
       (local_place type data \<lparr>name = nm, versions = versions entry\<rparr>)"

fun local_types :: "(string \<Rightarrow> string list) \<Rightarrow> string list \<Rightarrow> data \<Rightarrow> exn + data" where
  "local_types glob [] data = Inr data"
| "local_types glob (type # types) data =
     (case local_scan type (glob (''ontology/'' @ type @ ''/*/*/*'')) [] of
        Inl e \<Rightarrow> Inl e
      | Inr ontologies \<Rightarrow> local_types glob types (local_split type ontologies data))"

definition local_data :: "(string \<Rightarrow> string list) \<Rightarrow> exn + data" where
  "local_data glob =
     (case local_types glob [''modules'', ''demo''] (\<lambda>b. []) of
        Inl e \<Rightarrow> Inl e
      | Inr data \<Rightarrow> Inr (\<lambda>b. sort_key name (data b)))"

subsection \<open>What the specification says about the buckets\<close>

text \<open>
  The pairs of name and version that the files with the indexable extension of one type
  tag give, in the order of the enumeration.
\<close>

definition pairs_of :: "string \<Rightarrow> string list \<Rightarrow> (string \<times> string) list" where
  "pairs_of type sources =
     List.map_filter (re_match type) (filter (\<lambda>source. endswith source ''.ttl'') sources)"

fun aggregate ::
  "(string \<times> ontology) list \<Rightarrow> (string \<times> string) list \<Rightarrow> (string \<times> ontology) list" where
  "aggregate ontologies [] = ontologies"
| "aggregate ontologies ((nm, version) # pairs) =
     aggregate (add_version ontologies nm version) pairs"

definition entries_of :: "(string \<times> ontology) list \<Rightarrow> ontology list" where
  "entries_of ontologies =
     map (\<lambda>(nm, entry). \<lparr>name = nm, versions = versions entry\<rparr>) ontologies"

definition malformed :: "string \<Rightarrow> string \<Rightarrow> bool" where
  "malformed type source = (endswith source ''.ttl'' \<and> re_match type source = None)"

definition ttl_pairs :: "(string \<Rightarrow> string list) \<Rightarrow> string \<Rightarrow> (string \<times> string) list" where
  "ttl_pairs glob type = pairs_of type (glob (''ontology/'' @ type @ ''/*/*/*''))"

definition some_malformed :: "(string \<Rightarrow> string list) \<Rightarrow> string \<Rightarrow> bool" where
  "some_malformed glob type =
     (\<exists>s \<in> set (glob (''ontology/'' @ type @ ''/*/*/*'')). malformed type s)"

definition versions_of :: "string \<Rightarrow> (string \<times> string) list \<Rightarrow> string list" where
  "versions_of nm pairs = map snd (filter (\<lambda>p. fst p = nm) pairs)"

text \<open>
  The static tables: the top-level category of a name of a type, and the secondary
  tags of a core name.
\<close>

definition category_of :: "string \<Rightarrow> string \<Rightarrow> bucket" where
  "category_of type nm =
     (if type = ''demo'' then Demo
      else if nm \<in> {''actorODP'', ''observation'', ''processODP'', ''product'', ''resourceODP'',
                     ''location''}
      then Core else Other)"

definition tags_of :: "string \<Rightarrow> string \<Rightarrow> bucket set" where
  "tags_of type nm =
     (if category_of type nm = Core then
        (if nm = ''actorODP'' then {Actor} else {}) \<union>
        (if nm = ''processODP'' then {Process} else {}) \<union>
        (if nm = ''resourceODP'' \<or> nm = ''product'' then {Resource} else {}) \<union>
        (if nm = ''observation'' then {Observation} else {}) \<union>
        (if nm = ''location'' then {Supplementary} else {})
      else {})"

definition buckets_of :: "string \<Rightarrow> string \<Rightarrow> bucket set" where
  "buckets_of type nm = insert (category_of type nm) (tags_of type nm)"

definition placed :: "(string \<Rightarrow> string list) \<Rightarrow> string \<Rightarrow> bucket \<Rightarrow> ontology list" where
  "placed glob type b =
     filter (\<lambda>e. b \<in> buckets_of type (name e)) (entries_of (aggregate [] (ttl_pairs glob type)))"

subsection \<open>Example file trees\<close>

text \<open>
  The specification's example: module \<open>actorODP\<close> in versions 0.1 and 0.2, module
  \<open>widgetX\<close> in version 0.1 (with a file that is not indexed beside it), no demo.
\<close>

definition example_glob :: "string \<Rightarrow> string list" where
  "example_glob pattern =
     (if pattern = ''ontology/modules/*/*/*'' then
        [''ontology/modules/widgetX/0.1/widgetX.ttl'',
         ''ontology/modules/widgetX/0.1/README.md'',
         ''ontology/modules/actorODP/0.1/actorODP.ttl'',
         ''ontology/modules/actorODP/0.2/actorODP.ttl'']
      else [])"

text \<open>
  One module in the versions 0.2, 0.10 and 1.0, the middle one with two indexable files,
  and one demo.
\<close>

definition versions_glob :: "string \<Rightarrow> string list" where
  "versions_glob pattern =
     (if pattern = ''ontology/modules/*/*/*'' then
        [''ontology/modules/product/0.2/product.ttl'',
         ''ontology/modules/product/0.10/product.ttl'',
         ''ontology/modules/product/0.10/shapes.ttl'',
         ''ontology/modules/product/1.0/product.ttl'']
      else if pattern = ''ontology/demo/*/*/*'' then
        [''ontology/demo/shop/0.1/shop.ttl'']
      else [])"

section \<open>Rendering the index\<close>

text \<open>
  What the scripts take from their environment: the results of \<^verbatim>\<open>glob\<close>, of reading a
  file, of compiling a template (a compiled template maps the data to the rendered text
  or raises), of opening a file for writing and of writing it; for the local driver also
  the results of the subprocess calls, of the directory operations, and the tree below
  \<^verbatim>\<open>docs/dev\<close> as the documentation tool leaves it.
\<close>

type_synonym path = "string list"

datatype node = File string | Dir "(string \<times> node) list"

datatype run_result = Completed int string | Raised exn

record env =
  fs_glob :: "string \<Rightarrow> string list"
  read_file :: "string \<Rightarrow> exn + string"
  compile :: "string \<Rightarrow> exn + (data \<Rightarrow> exn + string)"
  open_write :: "string \<Rightarrow> exn option"
  write_file :: "string \<Rightarrow> string \<Rightarrow> exn option"
  path_exists :: "string \<Rightarrow> bool"
  rglob :: "path \<Rightarrow> string \<Rightarrow> path list"
  mkdir :: "path \<Rightarrow> exn option"
  run :: "string list \<Rightarrow> nat option \<Rightarrow> run_result"
  rename :: "path \<Rightarrow> path \<Rightarrow> exn option"
  docs_dev :: "(string \<times> node) list"

text \<open>
  The lines of both scripts that read the template, compile it, open the output file,
  render and write:
  \<^verbatim>\<open>
  with open(template_file, "r") as f:
      template = compiler.compile(f.read())
  with open(index_file, "w") as f:
      f.write(template({"data": data}))
  \<close>
  The result is the text written, or the exception of the first step that raises.
\<close>

definition render_index :: "env \<Rightarrow> string \<Rightarrow> string \<Rightarrow> data \<Rightarrow> exn + string" where
  "render_index env template_file index_file data =
     (case read_file env template_file of
        Inl e \<Rightarrow> Inl e
      | Inr source \<Rightarrow>
          (case compile env source of
             Inl e \<Rightarrow> Inl e
           | Inr template \<Rightarrow>
               (case open_write env index_file of
                  Some e \<Rightarrow> Inl e
                | None \<Rightarrow>
                    (case template data of
                       Inl e \<Rightarrow> Inl e
                     | Inr text \<Rightarrow>
                         (case write_file env index_file text of
                            Some e \<Rightarrow> Inl e
                          | None \<Rightarrow> Inr text)))))"

subsection \<open>build_index.py\<close>

text \<open>
  \<^verbatim>\<open>create_index_file(index_file)\<close> of the standalone script has no handler: an exception
  of the aggregation or of the rendering leaves the function. \<open>index_main\<close> takes the
  argument vector; an exception that leaves it ends the process.
\<close>

definition index_create_index_file :: "env \<Rightarrow> string \<Rightarrow> exn + string" where
  "index_create_index_file env index_file =
     (case index_data (fs_glob env) of
        Inl e \<Rightarrow> Inl e
      | Inr data \<Rightarrow> render_index env ''index.hbs'' index_file data)"

definition index_main :: "env \<Rightarrow> string list \<Rightarrow> exn + string" where
  "index_main env argv =
     index_create_index_file env
       (if length argv > 1 then argv ! 1 else ''docs/index.html'')"

subsection \<open>build_local.py\<close>

text \<open>
  What the local driver prints is kept as a list of events, together with the subprocess
  calls it makes and the directories it creates. The banner lines and the listing of
  the generated tree are left out.
\<close>

datatype message =
    JavaMissing | JavaFound | JarMissing | JarFound | NoFiles
  | Processing path
  | ToolSucceeded | ToolFailed int | ToolTimedOut | ToolError exn
  | IndexGenerated | IndexFailed exn | IndexWarning
  | Summary nat nat nat
  | SomeFailed | AllSucceeded

datatype event =
    Ran "string list" "nat option"
  | MadeDir path
  | Renamed path path
  | Said message

text \<open>
  \<^verbatim>\<open>create_index_file()\<close> of the local driver: the aggregation is outside the \<^verbatim>\<open>try\<close>,
  the rendering inside, with \<^verbatim>\<open>except Exception\<close> returning \<^verbatim>\<open>False\<close>.
\<close>

definition local_create_index_file :: "env \<Rightarrow> (exn + bool) \<times> event list" where
  "local_create_index_file env =
     (case local_data (fs_glob env) of
        Inl e \<Rightarrow> (Inl e, [])
      | Inr data \<Rightarrow>
          (case render_index env ''index.hbs'' ''docs/dev/index.html'' data of
             Inr text \<Rightarrow> (Inr True, [Said IndexGenerated])
           | Inl e \<Rightarrow>
               if is_Exception e then (Inr False, [Said (IndexFailed e)])
               else (Inl e, [])))"

section \<open>The documentation driver\<close>

definition WIDOCO_VERSION :: string where
  "WIDOCO_VERSION = ''1.4.25''"

definition WIDOCO_JAR_PATH :: string where
  "WIDOCO_JAR_PATH = ''tools/widoco-'' @ WIDOCO_VERSION @ ''.jar''"

definition ONTOLOGY_DIR :: string where
  "ONTOLOGY_DIR = ''ontology''"

definition DOCS_DIR :: path where
  "DOCS_DIR = [''docs'', ''dev'']"

definition WIDOCO_OPTIONS :: "string list" where
  "WIDOCO_OPTIONS = [''-rewriteAll'', ''-includeImportedOntologies'', ''-webVowl'', ''-licensius'']"

text \<open>\<^verbatim>\<open>str(path)\<close> of a relative path given by its parts.\<close>

fun path_str :: "path \<Rightarrow> string" where
  "path_str [] = ''.''"
| "path_str [p] = p"
| "path_str (p # ps) = p @ ''/'' @ path_str ps"

definition check_widoco :: "env \<Rightarrow> bool \<times> event list" where
  "check_widoco env =
     (if path_exists env WIDOCO_JAR_PATH then (True, [Said JarFound])
      else (False, [Said JarMissing]))"

text \<open>
  \<^verbatim>\<open>check_java\<close> catches \<^verbatim>\<open>FileNotFoundError\<close> only; whatever exit code the command has,
  Java counts as installed.
\<close>

definition check_java :: "env \<Rightarrow> (exn + bool) \<times> event list" where
  "check_java env =
     (case run env [''java'', ''-version''] None of
        Completed returncode stderr \<Rightarrow> (Inr True, [Ran [''java'', ''-version''] None, Said JavaFound])
      | Raised e \<Rightarrow>
          if e = FileNotFoundError
          then (Inr False, [Ran [''java'', ''-version''] None, Said JavaMissing])
          else (Inl e, [Ran [''java'', ''-version''] None]))"

definition find_ontology_files :: "env \<Rightarrow> path list" where
  "find_ontology_files env =
     (if \<not> path_exists env ONTOLOGY_DIR then []
      else
        let modules_path = [ONTOLOGY_DIR, ''modules''];
            demo_path = [ONTOLOGY_DIR, ''demo''];
            extensions = [''*.owl'', ''*.ttl'', ''*.rdf''];
            found_modules =
              (if path_exists env (path_str modules_path)
               then concat (map (rglob env modules_path) extensions) else []);
            found_demo =
              (if path_exists env (path_str demo_path)
               then concat (map (rglob env demo_path) extensions) else [])
        in sort_key (\<lambda>p. p) (found_modules @ found_demo))"

text \<open>
  The handlers of \<^verbatim>\<open>generate_documentation\<close>, which cover the subprocess call and the
  renaming: \<^verbatim>\<open>except subprocess.TimeoutExpired\<close>, then \<^verbatim>\<open>except Exception\<close>.
\<close>

definition handle_tool_error :: "exn \<Rightarrow> (exn + bool) \<times> event list" where
  "handle_tool_error e =
     (if e = TimeoutExpired then (Inr False, [Said ToolTimedOut])
      else if is_Exception e then (Inr False, [Said (ToolError e)])
      else (Inl e, []))"

definition widoco_cmd :: "path \<Rightarrow> path \<Rightarrow> string list" where
  "widoco_cmd ontology_file output_dir =
     [''java'', ''-jar'', WIDOCO_JAR_PATH,
      ''-ontFile'', path_str ontology_file,
      ''-outFolder'', path_str output_dir] @ WIDOCO_OPTIONS"

definition generate_documentation :: "env \<Rightarrow> path \<Rightarrow> (exn + bool) \<times> event list" where
  "generate_documentation env ontology_file =
     (case ontology_file of
        [] \<Rightarrow> (Inl ValueError, [Said (Processing ontology_file)])
      | first # relative_path \<Rightarrow>
          if first \<noteq> ONTOLOGY_DIR then (Inl ValueError, [Said (Processing ontology_file)])
          else
            let dir_path = butlast relative_path;
                output_dir = DOCS_DIR @ dir_path;
                cmd = widoco_cmd ontology_file output_dir
            in (case mkdir env output_dir of
                  Some e \<Rightarrow> (Inl e, [Said (Processing ontology_file)])
                | None \<Rightarrow>
                    let before = [Said (Processing ontology_file), MadeDir output_dir,
                                  Ran cmd (Some 300)]
                    in (case run env cmd (Some 300) of
                          Raised e \<Rightarrow>
                            (fst (handle_tool_error e), before @ snd (handle_tool_error e))
                        | Completed returncode stderr \<Rightarrow>
                            if returncode = 0 then
                              (let index_en = output_dir @ [''index-en.html''];
                                   index_html = output_dir @ [''index.html'']
                               in if path_exists env (path_str index_en) then
                                    (case rename env index_en index_html of
                                       Some e \<Rightarrow>
                                         (fst (handle_tool_error e),
                                          before @ [Said ToolSucceeded] @
                                            snd (handle_tool_error e))
                                     | None \<Rightarrow>
                                         (Inr True,
                                          before @ [Said ToolSucceeded,
                                                    Renamed index_en index_html]))
                                  else (Inr True, before @ [Said ToolSucceeded]))
                            else (Inr False, before @ [Said (ToolFailed returncode)]))))"

text \<open>The loop of \<^verbatim>\<open>main\<close> over the files, with its two counters.\<close>

fun generate_all ::
  "env \<Rightarrow> path list \<Rightarrow> nat \<Rightarrow> nat \<Rightarrow> (exn + nat \<times> nat) \<times> event list" where
  "generate_all env [] success_count fail_count = (Inr (success_count, fail_count), [])"
| "generate_all env (ontology_file # ontology_files) success_count fail_count =
     (case generate_documentation env ontology_file of
        (Inl e, events) \<Rightarrow> (Inl e, events)
      | (Inr ok, events) \<Rightarrow>
          (case generate_all env ontology_files
                  (if ok then success_count + 1 else success_count)
                  (if ok then fail_count else fail_count + 1) of
             (result, events') \<Rightarrow> (result, events @ events')))"

section \<open>The latest folders\<close>

text \<open>
  Directory names are taken to be ASCII: \<^verbatim>\<open>str.isdigit\<close> and \<^verbatim>\<open>int\<close> are modelled on
  the ASCII digits, signs, underscore and white space. \<^verbatim>\<open>int(s)\<close> strips white space at
  both ends, takes an optional sign, and then wants decimal digits, where single
  underscores may stand between two digits; anything else raises \<^verbatim>\<open>ValueError\<close>.
\<close>

definition isdigit :: "char \<Rightarrow> bool" where
  "isdigit c = (CHR ''0'' \<le> c \<and> c \<le> CHR ''9'')"

definition isspace :: "char \<Rightarrow> bool" where
  "isspace c =
     (c \<in> {CHR '' '', CHR 0x09, CHR 0x0A, CHR 0x0B, CHR 0x0C, CHR 0x0D,
            CHR 0x1C, CHR 0x1D, CHR 0x1E, CHR 0x1F})"

definition strip :: "string \<Rightarrow> string" where
  "strip s = rev (dropWhile isspace (rev (dropWhile isspace s)))"

definition digit_value :: "char \<Rightarrow> int" where
  "digit_value c = int (of_char c) - 48"

fun parse_digits :: "string \<Rightarrow> int \<Rightarrow> int option" where
  "parse_digits [] acc = Some acc"
| "parse_digits (c # cs) acc =
     (if isdigit c then parse_digits cs (acc * 10 + digit_value c)
      else if c = CHR ''_'' then
        (case cs of
           [] \<Rightarrow> None
         | d # ds \<Rightarrow> if isdigit d then parse_digits cs acc else None)
      else None)"

definition py_int :: "string \<Rightarrow> exn + int" where
  "py_int s =
     (let t = strip s;
          (sign, digits) =
            (case t of
               [] \<Rightarrow> (1, [])
             | c # cs \<Rightarrow>
                 if c = CHR ''+'' then (1, cs)
                 else if c = CHR ''-'' then (- 1, cs)
                 else (1, t))
      in case digits of
           [] \<Rightarrow> Inl ValueError
         | d # ds \<Rightarrow>
             if isdigit d then
               (case parse_digits digits 0 of
                  None \<Rightarrow> Inl ValueError
                | Some n \<Rightarrow> Inr (sign * n))
             else Inl ValueError)"

text \<open>\<^verbatim>\<open>s.split(sep)\<close> for a separator of one character.\<close>

fun split :: "char \<Rightarrow> string \<Rightarrow> string list" where
  "split sep [] = [[]]"
| "split sep (c # cs) =
     (if c = sep then [] # split sep cs
      else (case split sep cs of
              [] \<Rightarrow> [[c]]
            | part # parts \<Rightarrow> (c # part) # parts))"

text \<open>\<^verbatim>\<open>[int(p) for p in parts]\<close>\<close>

fun ints :: "string list \<Rightarrow> exn + int list" where
  "ints [] = Inr []"
| "ints (p # parts) =
     (case py_int p of
        Inl e \<Rightarrow> Inl e
      | Inr n \<Rightarrow> (case ints parts of Inl e \<Rightarrow> Inl e | Inr ns \<Rightarrow> Inr (n # ns)))"

definition version_key :: "string \<Rightarrow> exn + int list" where
  "version_key nm = ints (split CHR ''.'' nm)"

text \<open>
  The entries of a directory are pairs of a name and a node, in the order in which
  \<^verbatim>\<open>iterdir\<close> gives them. The comprehension that selects the version directories:
  \<^verbatim>\<open>
  [d for d in module_dir.iterdir()
   if d.is_dir() and d.name != 'latest' and d.name[0].isdigit()]
  \<close>
\<close>

fun version_dirs :: "(string \<times> node) list \<Rightarrow> exn + (string \<times> node) list" where
  "version_dirs [] = Inr []"
| "version_dirs ((nm, File content) # ds) = version_dirs ds"
| "version_dirs ((nm, Dir entries) # ds) =
     (if nm = ''latest'' then version_dirs ds
      else case nm of
             [] \<Rightarrow> Inl IndexError
           | c # cs \<Rightarrow>
               (case version_dirs ds of
                  Inl e \<Rightarrow> Inl e
                | Inr rest \<Rightarrow> Inr (if isdigit c then (nm, Dir entries) # rest else rest)))"

text \<open>
  \<^verbatim>\<open>version_dirs.sort(key=lambda x: [int(p) for p in x.name.split('.')])\<close>: the keys of all
  elements are computed first, then the list is sorted by them, stably; lists of
  integers are compared lexicographically.
\<close>

fun version_keys :: "(string \<times> node) list \<Rightarrow> exn + int list list" where
  "version_keys [] = Inr []"
| "version_keys (d # ds) =
     (case version_key (fst d) of
        Inl e \<Rightarrow> Inl e
      | Inr k \<Rightarrow> (case version_keys ds of Inl e \<Rightarrow> Inl e | Inr ks \<Rightarrow> Inr (k # ks)))"

definition sort_versions :: "(string \<times> node) list \<Rightarrow> exn + (string \<times> node) list" where
  "sort_versions ds =
     (case version_keys ds of
        Inl e \<Rightarrow> Inl e
      | Inr ks \<Rightarrow> Inr (map snd (sort_key fst (zip ks ds))))"

text \<open>
  The body of the loop over the modules, on the entries of one module directory. An
  existing \<open>latest\<close> is removed with \<^verbatim>\<open>shutil.rmtree\<close>, which raises on a plain file; then
  the tree of the last directory of the sorted list is copied.
\<close>

definition latest_for_module :: "(string \<times> node) list \<Rightarrow> exn + (string \<times> node) list" where
  "latest_for_module entries =
     (case version_dirs entries of
        Inl e \<Rightarrow> Inl e
      | Inr dirs \<Rightarrow>
          if dirs = [] then Inr entries
          else
            (case sort_versions dirs of
               Inl e \<Rightarrow> Inl e
             | Inr sorted_dirs \<Rightarrow>
                 let latest_version = last sorted_dirs
                 in (case map_of entries ''latest'' of
                       None \<Rightarrow> Inr (entries @ [(''latest'', snd latest_version)])
                     | Some (File content) \<Rightarrow> Inl NotADirectoryError
                     | Some (Dir old) \<Rightarrow>
                         Inr (AList.delete ''latest'' entries @
                              [(''latest'', snd latest_version)]))))"

fun latest_for_modules :: "(string \<times> node) list \<Rightarrow> exn + (string \<times> node) list" where
  "latest_for_modules [] = Inr []"
| "latest_for_modules ((nm, File content) # modules) =
     (case latest_for_modules modules of
        Inl e \<Rightarrow> Inl e
      | Inr modules' \<Rightarrow> Inr ((nm, File content) # modules'))"
| "latest_for_modules ((nm, Dir entries) # modules) =
     (case latest_for_module entries of
        Inl e \<Rightarrow> Inl e
      | Inr entries' \<Rightarrow>
          (case latest_for_modules modules of
             Inl e \<Rightarrow> Inl e
           | Inr modules' \<Rightarrow> Inr ((nm, Dir entries') # modules')))"

fun create_latest_folders :: "(string \<times> node) list \<Rightarrow> exn + (string \<times> node) list" where
  "create_latest_folders [] = Inr []"
| "create_latest_folders ((nm, File content) # categories) =
     (case create_latest_folders categories of
        Inl e \<Rightarrow> Inl e
      | Inr categories' \<Rightarrow> Inr ((nm, File content) # categories'))"
| "create_latest_folders ((nm, Dir modules) # categories) =
     (if nm = ''dev'' then
        (case create_latest_folders categories of
           Inl e \<Rightarrow> Inl e
         | Inr categories' \<Rightarrow> Inr ((nm, Dir modules) # categories'))
      else
        (case latest_for_modules modules of
           Inl e \<Rightarrow> Inl e
         | Inr modules' \<Rightarrow>
             (case create_latest_folders categories of
                Inl e \<Rightarrow> Inl e
              | Inr categories' \<Rightarrow> Inr ((nm, Dir modules') # categories'))))"

section \<open>The local driver's main function\<close>

datatype outcome = Returned | Exited nat | Uncaught exn

text \<open>The exit status of the process: an exception that nothing catches gives 1.\<close>

fun exit_status :: "outcome \<Rightarrow> nat" where
  "exit_status Returned = 0"
| "exit_status (Exited n) = n"
| "exit_status (Uncaught e) = 1"

text \<open>The two steps that \<^verbatim>\<open>main\<close> runs when at least one file succeeded.\<close>

definition latest_and_index :: "env \<Rightarrow> nat \<Rightarrow> (exn + unit) \<times> event list" where
  "latest_and_index env success_count =
     (if success_count > 0 then
        (case create_latest_folders (docs_dev env) of
           Inl e \<Rightarrow> (Inl e, [])
         | Inr tree \<Rightarrow>
             (case local_create_index_file env of
                (Inl e, events) \<Rightarrow> (Inl e, events)
              | (Inr ok, events) \<Rightarrow>
                  (Inr (), events @ (if \<not> ok then [Said IndexWarning] else []))))
      else (Inr (), []))"

definition main :: "env \<Rightarrow> outcome \<times> event list" where
  "main env =
     (case check_java env of
        (Inl e, events1) \<Rightarrow> (Uncaught e, events1)
      | (Inr java, events1) \<Rightarrow>
          if \<not> java then (Exited 1, events1)
          else
            (case check_widoco env of
               (widoco, events2) \<Rightarrow>
                 if \<not> widoco then (Exited 1, events1 @ events2)
                 else
                   let ontology_files = find_ontology_files env
                   in if ontology_files = []
                      then (Exited 1, events1 @ events2 @ [Said NoFiles])
                      else
                        (case generate_all env ontology_files 0 0 of
                           (Inl e, events3) \<Rightarrow> (Uncaught e, events1 @ events2 @ events3)
                         | (Inr (success_count, fail_count), events3) \<Rightarrow>
                             (case latest_and_index env success_count of
                                (Inl e, events4) \<Rightarrow>
                                  (Uncaught e, events1 @ events2 @ events3 @ events4)
                              | (Inr u, events4) \<Rightarrow>
                                  let summary =
                                        [Said (Summary (length ontology_files)
                                                 success_count fail_count)]
                                  in if fail_count > 0
                                     then (Exited 1,
                                           events1 @ events2 @ events3 @ events4 @ summary @
                                             [Said SomeFailed])
                                     else (Returned,
                                           events1 @ events2 @ events3 @ events4 @ summary @
                                             [Said AllSucceeded])))))"

subsection \<open>What the specification says about version names\<close>




subsection \<open>Example module directories\<close>




section \<open>Example environments\<close>

text \<open>An environment in which every operation succeeds, with three ontology files.\<close>

definition base_env :: env where
  "base_env =
     \<lparr>fs_glob = example_glob,
      read_file = (\<lambda>file. Inr ''{{#each data.core}}{{name}}{{/each}}''),
      compile = (\<lambda>source. Inr (\<lambda>data. Inr (concat (map name (data Core))))),
      open_write = (\<lambda>file. None),
      write_file = (\<lambda>file text. None),
      path_exists = (\<lambda>file. True),
      rglob = (\<lambda>dir pattern.
        if dir = [''ontology'', ''modules''] \<and> pattern = ''*.ttl''
        then [[''ontology'', ''modules'', ''widgetX'', ''0.1'', ''widgetX.ttl''],
              [''ontology'', ''modules'', ''actorODP'', ''0.1'', ''actorODP.ttl''],
              [''ontology'', ''modules'', ''actorODP'', ''0.2'', ''actorODP.ttl'']]
        else []),
      mkdir = (\<lambda>dir. None),
      run = (\<lambda>cmd timeout. Completed 0 ''openjdk version 17''),
      rename = (\<lambda>old new. None),
      docs_dev = [(''modules'', Dir [(''actorODP'', Dir [(''0.1'', Dir []), (''0.2'', Dir [])]),
                                    (''widgetX'', Dir [(''0.1'', Dir [])])])]\<rparr>"

text \<open>An enumeration with a file that is skipped and a path that does not match.\<close>

definition stray_glob :: "string \<Rightarrow> string list" where
  "stray_glob pattern =
     (if pattern = ''ontology/modules/*/*/*'' then
        [''ontology/modules/actorODP/0.1/notes.txt'',
         ''ontology/modules/stray.ttl'']
      else [])"

text \<open>The template does not compile.\<close>

definition broken_template_env :: env where
  "broken_template_env = base_env\<lparr>compile := (\<lambda>source. Inl (OtherError ''template''))\<rparr>"

text \<open>
  The documentation tool exits with 1 on the first file, runs into the timeout on the
  second and succeeds on the third.
\<close>

definition flaky_env :: env where
  "flaky_env =
     base_env\<lparr>run := (\<lambda>cmd timeout.
       if take 1 (drop 4 cmd) = [''ontology/modules/actorODP/0.1/actorODP.ttl'']
       then Completed 1 ''error''
       else if take 1 (drop 4 cmd) = [''ontology/modules/actorODP/0.2/actorODP.ttl'']
       then Raised TimeoutExpired
       else Completed 0 ''ok'')\<rparr>"

text \<open>Java and the jar are there, the ontology directory is not.\<close>

definition empty_env :: env where
  "empty_env = base_env\<lparr>path_exists := (\<lambda>file. file = WIDOCO_JAR_PATH)\<rparr>"

text \<open>Java is missing; the jar is missing.\<close>

definition no_java_env :: env where
  "no_java_env = base_env\<lparr>run := (\<lambda>cmd timeout. Raised FileNotFoundError)\<rparr>"

definition no_jar_env :: env where
  "no_jar_env = base_env\<lparr>path_exists := (\<lambda>file. file \<noteq> WIDOCO_JAR_PATH)\<rparr>"

subsection \<open>What the specification says about the documentation run\<close>

text \<open>
  The output directory of an ontology file, the result of the documentation tool on it
  with the fixed timeout, and the three ways in which the specification lets it fail:
  a nonzero exit code, the timeout, an exception of the invocation.
\<close>

definition output_dir_of :: "path \<Rightarrow> path" where
  "output_dir_of ontology_file = DOCS_DIR @ butlast (tl ontology_file)"

definition tool_result :: "env \<Rightarrow> path \<Rightarrow> run_result" where
  "tool_result env ontology_file =
     run env (widoco_cmd ontology_file (output_dir_of ontology_file)) (Some 300)"

definition tool_fails :: "env \<Rightarrow> path \<Rightarrow> bool" where
  "tool_fails env ontology_file =
     (case tool_result env ontology_file of
        Completed returncode stderr \<Rightarrow> returncode \<noteq> 0
      | Raised e \<Rightarrow> True)"

text \<open>
  The file lies below the ontology directory and its output directory can be made, so
  that the tool is reached; and what is raised inside the \<^verbatim>\<open>try\<close> derives from
  \<^verbatim>\<open>Exception\<close>.
\<close>

definition prepared :: "env \<Rightarrow> path \<Rightarrow> bool" where
  "prepared env ontology_file =
     (ontology_file \<noteq> [] \<and> hd ontology_file = ONTOLOGY_DIR \<and>
      mkdir env (output_dir_of ontology_file) = None)"

definition contained :: "env \<Rightarrow> path \<Rightarrow> bool" where
  "contained env ontology_file =
     (prepared env ontology_file \<and>
      (case tool_result env ontology_file of
         Completed returncode stderr \<Rightarrow> True
       | Raised e \<Rightarrow> is_Exception e) \<and>
      (case rename env (output_dir_of ontology_file @ [''index-en.html''])
                       (output_dir_of ontology_file @ [''index.html'']) of
         None \<Rightarrow> True
       | Some e \<Rightarrow> is_Exception e))"

definition is_run :: "event \<Rightarrow> bool" where
  "is_run ev = (case ev of Ran cmd timeout \<Rightarrow> True | _ \<Rightarrow> False)"

definition tool_runs :: "event list \<Rightarrow> event list" where
  "tool_runs events = filter is_run events"

section \<open>Properties of the index data\<close>

lemma sort_mset_cong: "mset xs = mset ys \<Longrightarrow> sort xs = sort (ys :: 'a::linorder list)"
  by (rule properties_for_sort) simp_all

lemma sort_reverse_eq: "sort_reverse xs = rev (sort xs)"
  unfolding sort_reverse_def by (simp add: sort_mset_cong [of "rev xs" xs])


lemma sort_reverse_snoc:
  "sort_reverse (sort_reverse xs @ [v]) = sort_reverse (xs @ [v])"
  by (simp add: sort_reverse_eq sort_mset_cong [of "rev (sort xs) @ [v]" "xs @ [v]"])

lemma map_fst_map_entry: "map fst (AList.map_entry k f xs) = map fst xs"
  by (induction xs) auto

lemma map_fst_update:
  "map fst (AList.update k v xs) = (if k \<in> fst ` set xs then map fst xs else map fst xs @ [k])"
  by (induction xs) auto

lemma map_of_add_version:
  "map_of (add_version onts n v) =
     (map_of onts)(n \<mapsto>
        (case map_of onts n of
           None \<Rightarrow> \<lparr>name = n, versions = sort_reverse [v]\<rparr>
         | Some e \<Rightarrow> e\<lparr>versions := sort_reverse (versions e @ [v])\<rparr>))"
  by (auto simp: add_version_def Let_def map_of_map_entry update_conv' fun_eq_iff split: option.splits)

lemma keys_add_version:
  "map fst (add_version onts n v) =
     (if n \<in> fst ` set onts then map fst onts else map fst onts @ [n])"
  by (auto simp: add_version_def Let_def map_fst_map_entry map_fst_update map_of_eq_None_iff)

lemma distinct_add_version:
  "distinct (map fst onts) \<Longrightarrow> distinct (map fst (add_version onts n v))"
  by (auto simp: keys_add_version)

lemma aggregate_snoc:
  "aggregate onts (pairs @ [(n, v)]) = add_version (aggregate onts pairs) n v"
  by (induction pairs arbitrary: onts) auto



lemma distinct_aggregate: "distinct (map fst (aggregate [] pairs))"
proof (induction pairs rule: rev_induct)
  case Nil
  show ?case by simp
next
  case (snoc p pairs)
  obtain n v where "p = (n, v)" by (cases p)
  then show ?case using snoc by (simp add: aggregate_snoc distinct_add_version)
qed

lemma versions_of_snoc:
  "versions_of k (pairs @ [(n, v)]) = (if n = k then versions_of k pairs @ [v] else versions_of k pairs)"
  by (simp add: versions_of_def)

lemma versions_of_empty: "k \<notin> fst ` set pairs \<Longrightarrow> versions_of k pairs = []"
  by (auto simp: versions_of_def filter_empty_conv)

lemma map_of_aggregate:
  "map_of (aggregate [] pairs) k =
     (if k \<in> fst ` set pairs
      then Some \<lparr>name = k, versions = sort_reverse (versions_of k pairs)\<rparr> else None)"
proof (induction pairs rule: rev_induct)
  case Nil
  show ?case by simp
next
  case (snoc p pairs)
  obtain n v where p: "p = (n, v)" by (cases p)
  show ?case
  proof (cases "k = n")
    case True
    show ?thesis
      using snoc
      by (auto simp: p True aggregate_snoc map_of_add_version versions_of_snoc
            sort_reverse_snoc versions_of_empty)
  next
    case False
    then show ?thesis
      using snoc
      by (auto simp: p aggregate_snoc map_of_add_version versions_of_snoc)
  qed
qed

lemma index_scan_eq:
  "index_scan type sources onts =
     (if \<exists>s \<in> set sources. malformed type s then Inl AttributeError
      else Inr (aggregate onts (pairs_of type sources)))"
  by (induction sources arbitrary: onts)
     (auto simp: pairs_of_def malformed_def split: option.splits)

lemma index_place_apply:
  "index_place type data ont b =
     data b @ (if b \<in> buckets_of type (name ont) then [ont] else [])"
  by (cases b)
     (auto simp: index_place_def append_to_def buckets_of_def category_of_def tags_of_def
        index_core_def index_core_actor_def index_core_process_def index_core_resource_def
        index_core_obsrvation_def index_core_supplementary_def Let_def)

lemma index_split_apply:
  "index_split type onts data b =
     data b @ filter (\<lambda>e. b \<in> buckets_of type (name e)) (entries_of onts)"
  by (induction onts arbitrary: data) (auto simp: entries_of_def index_place_apply)

lemma index_data_eq:
  "index_data glob =
     (if some_malformed glob ''modules'' \<or> some_malformed glob ''demo'' then Inl AttributeError
      else Inr (\<lambda>b. sort_key name (placed glob ''modules'' b @ placed glob ''demo'' b)))"
  by (simp add: index_data_def index_scan_eq some_malformed_def index_split_apply placed_def
        ttl_pairs_def fun_eq_iff)

lemma local_scan_eq: "local_scan type sources onts = index_scan type sources onts"
  by (induction sources arbitrary: onts) (auto split: option.splits)

lemma local_place_eq: "local_place type data ont = index_place type data ont"
  by (simp add: local_place_def index_place_def
        local_core_def local_core_actor_def local_core_process_def local_core_resource_def
        local_core_observation_def local_core_supplementary_def
        index_core_def index_core_actor_def index_core_process_def index_core_resource_def
        index_core_obsrvation_def index_core_supplementary_def)

lemma local_split_eq: "local_split type onts data = index_split type onts data"
  by (induction onts arbitrary: data) (auto simp: local_place_eq)

lemma local_types_eq: "local_types glob types data = index_types glob types data"
  by (induction types arbitrary: data) (auto simp: local_scan_eq local_split_eq split: sum.splits)

lemma local_data_eq: "local_data glob = index_data glob"
  by (simp add: local_data_def index_data_def local_types_eq)



lemma entry_of_aggregate:
  assumes "e \<in> set (entries_of (aggregate [] pairs))"
  shows "name e \<in> fst ` set pairs \<and> versions e = sort_reverse (versions_of (name e) pairs)"
proof -
  from assms obtain k x where kx: "(k, x) \<in> set (aggregate [] pairs)"
    and e: "e = \<lparr>name = k, versions = versions x\<rparr>"
    by (auto simp: entries_of_def)
  from kx have "map_of (aggregate [] pairs) k = Some x"
    by (simp add: distinct_aggregate)
  then show ?thesis
    by (auto simp: map_of_aggregate e split: if_splits)
qed

lemma entry_placed:
  "e \<in> set (placed glob type b) \<Longrightarrow>
     name e \<in> fst ` set (ttl_pairs glob type) \<and> b \<in> buckets_of type (name e) \<and>
     versions e = sort_reverse (versions_of (name e) (ttl_pairs glob type))"
  by (simp add: placed_def entry_of_aggregate)






lemma sorted_wrt_sort_reverse: "sorted_wrt (\<lambda>v w. v \<ge> w) (sort_reverse vs)"
proof -
  have "sorted (rev (sort_reverse vs))" by (simp add: sort_reverse_eq)
  then show ?thesis by (simp only: sorted_wrt_rev)
qed




text \<open>
  Claim C9. For every result of the enumeration, the aggregation of the standalone index
  builder and the one of the local driver give the same data: the scanning loops, the
  splitting loops and the tables agree, the table of observation names under its two
  spellings included.
\<close>

theorem aggregation_copies_agree:
  "local_data glob = index_data glob
   \<and> local_scan type sources onts = index_scan type sources onts
   \<and> local_split type onts data = index_split type onts data
   \<and> local_core = index_core \<and> local_core_observation = index_core_obsrvation"
  by (simp add: local_data_eq local_scan_eq local_split_eq local_core_def index_core_def
        local_core_observation_def index_core_obsrvation_def)

lemma data_result:
  assumes "index_data glob = Inr d \<or> local_data glob = Inr d"
  shows "d = (\<lambda>b. sort_key name (placed glob ''modules'' b @ placed glob ''demo'' b))"
  using assms by (auto simp: local_data_eq index_data_eq split: if_splits)

lemma sorted_nth_Suc:
  "sorted xs \<Longrightarrow> Suc i < length xs \<Longrightarrow> xs ! i \<le> (xs ! Suc i :: 'a::linorder)"
  by (simp add: sorted_iff_nth_mono)

text \<open>
  Claim C2. When the aggregation of either script has completed, every bucket is sorted
  ascending by name (each entry's name is at most the next one's), and every entry's
  version list is sorted descending by the order of strings, not by numeric value: the
  versions 0.2, 0.10 and 1.0 come out as 1.0, 0.2, 0.10.
\<close>

theorem buckets_sorted:
  assumes "index_data glob = Inr d \<or> local_data glob = Inr d"
  shows "sorted (map name (d b))
       \<and> (\<forall>i. Suc i < length (d b) \<longrightarrow> name (d b ! i) \<le> name (d b ! Suc i))
       \<and> (\<forall>e \<in> set (d b). sorted_wrt (\<lambda>v w. v \<ge> w) (versions e))
       \<and> sort_reverse [''0.2'', ''0.10'', ''1.0''] = [''1.0'', ''0.2'', ''0.10'']"
proof -
  have s: "sorted (map name (d b))"
    unfolding data_result [OF assms] by simp
  have n: "Suc i < length (d b) \<Longrightarrow> name (d b ! i) \<le> name (d b ! Suc i)" for i
    using sorted_nth_Suc [OF s, of i] by simp
  have v: "sorted_wrt (\<lambda>v w. v \<ge> w) (versions e)" if "e \<in> set (d b)" for e
  proof -
    from that have "e \<in> set (placed glob ''modules'' b) \<or> e \<in> set (placed glob ''demo'' b)"
      unfolding data_result [OF assms] by auto
    then obtain type where "versions e = sort_reverse (versions_of (name e) (ttl_pairs glob type))"
      using entry_placed by blast
    then show ?thesis by (simp add: sorted_wrt_sort_reverse)
  qed
  have x: "sort_reverse [''0.2'', ''0.10'', ''1.0''] = [''1.0'', ''0.2'', ''0.10'']"
    by code_simp
  from s n v x show ?thesis by blast
qed

theorem buckets_sorted_witness:
  "(\<exists>d. index_data versions_glob = Inr d
        \<and> d Core = [\<lparr>name = ''product'', versions = [''1.0'', ''0.2'', ''0.10'', ''0.10'']\<rparr>]
        \<and> sorted (map name (d Core))
        \<and> (\<forall>e \<in> set (d Core). sorted_wrt (\<lambda>v w. v \<ge> w) (versions e)))"
proof -
  have "case index_data versions_glob of
          Inl e \<Rightarrow> False
        | Inr d \<Rightarrow> d Core =
            [\<lparr>name = ''product'', versions = [''1.0'', ''0.2'', ''0.10'', ''0.10'']\<rparr>]"
    by code_simp
  then obtain d where h: "index_data versions_glob = Inr d"
    and c: "d Core = [\<lparr>name = ''product'', versions = [''1.0'', ''0.2'', ''0.10'', ''0.10'']\<rparr>]"
    by (cases "index_data versions_glob") auto
  from buckets_sorted [OF disjI1 [OF h], of Core] h c show ?thesis by blast
qed







section \<open>Properties of the latest folders\<close>























section \<open>Properties of the scripts as a whole\<close>

lemma main_completes:
  assumes "check_java env = (Inr True, events1)" and "check_widoco env = (True, events2)"
    and "find_ontology_files env \<noteq> []"
    and "generate_all env (find_ontology_files env) 0 0 = (Inr (success_count, fail_count), events3)"
    and "latest_and_index env success_count = (Inr u, events4)"
  shows "main env =
           (if fail_count > 0 then Exited 1 else Returned,
            events1 @ events2 @ events3 @ events4 @
              [Said (Summary (length (find_ontology_files env)) success_count fail_count),
               Said (if fail_count > 0 then SomeFailed else AllSucceeded)])"
  using assms by (simp add: main_def Let_def)

lemma main_uncaught:
  assumes "check_java env = (Inr True, events1)" and "check_widoco env = (True, events2)"
    and "find_ontology_files env \<noteq> []"
    and "generate_all env (find_ontology_files env) 0 0 = (Inr (success_count, fail_count), events3)"
    and "latest_and_index env success_count = (Inl e, events4)"
  shows "main env = (Uncaught e, events1 @ events2 @ events3 @ events4)"
  using assms by (simp add: main_def Let_def)

lemma scan_skips:
  "\<not> endswith source ''.ttl'' \<Longrightarrow>
     index_scan type (before @ source # after) onts = index_scan type (before @ after) onts"
proof -
  assume n: "\<not> endswith source ''.ttl''"
  then have "\<not> malformed type source" by (simp add: malformed_def)
  then have m: "(\<exists>s \<in> set (before @ source # after). malformed type s) \<longleftrightarrow>
             (\<exists>s \<in> set (before @ after). malformed type s)"
    by auto
  from n have p: "pairs_of type (before @ source # after) = pairs_of type (before @ after)"
    by (simp add: pairs_of_def)
  show ?thesis
    unfolding index_scan_eq m p ..
qed

lemma scan_aborts:
  "malformed type source \<Longrightarrow>
     index_scan type (before @ source # after) onts = Inl AttributeError"
  by (simp add: index_scan_eq)

lemma data_aborts:
  assumes "type \<in> {''modules'', ''demo''}"
    and "source \<in> set (glob (''ontology/'' @ type @ ''/*/*/*''))" and "malformed type source"
  shows "index_data glob = Inl AttributeError"
proof -
  from assms have "some_malformed glob ''modules'' \<or> some_malformed glob ''demo''"
    by (auto simp: some_malformed_def)
  then show ?thesis by (simp add: index_data_eq)
qed

text \<open>
  Claim C8. In the scanning loop of either script, a path that does not end with the
  indexable extension is skipped and leaves the aggregation as it is; a path with the
  extension that does not match the pattern of type, name and version raises an
  exception that nothing handles: the scan, the standalone script and the index step of
  the local driver all end with \<open>AttributeError\<close>, the latter outside its handler.
\<close>

theorem malformed_path_fatal:
  "(\<not> endswith source ''.ttl'' \<longrightarrow>
      index_scan type (before @ source # after) onts = index_scan type (before @ after) onts \<and>
      local_scan type (before @ source # after) onts = local_scan type (before @ after) onts)
   \<and> (endswith source ''.ttl'' \<and> re_match type source = None \<longrightarrow>
        index_scan type (before @ source # after) onts = Inl AttributeError \<and>
        local_scan type (before @ source # after) onts = Inl AttributeError)
   \<and> (type \<in> {''modules'', ''demo''} \<and>
        source \<in> set (fs_glob env (''ontology/'' @ type @ ''/*/*/*'')) \<and>
        endswith source ''.ttl'' \<and> re_match type source = None \<longrightarrow>
          index_main env argv = Inl AttributeError \<and>
          local_create_index_file env = (Inl AttributeError, []) \<and>
          (\<forall>n. n > 0 \<and> (\<exists>tree. create_latest_folders (docs_dev env) = Inr tree) \<longrightarrow>
             latest_and_index env n = (Inl AttributeError, [])))"
proof -
  have a: "index_scan type (before @ source # after) onts = index_scan type (before @ after) onts \<and>
      local_scan type (before @ source # after) onts = local_scan type (before @ after) onts"
    if "\<not> endswith source ''.ttl''"
    using that by (simp add: local_scan_eq scan_skips)
  have b: "index_scan type (before @ source # after) onts = Inl AttributeError \<and>
        local_scan type (before @ source # after) onts = Inl AttributeError"
    if "endswith source ''.ttl'' \<and> re_match type source = None"
    using that by (simp add: local_scan_eq scan_aborts malformed_def)
  have c: "index_main env argv = Inl AttributeError \<and>
          local_create_index_file env = (Inl AttributeError, []) \<and>
          (\<forall>n. n > 0 \<and> (\<exists>tree. create_latest_folders (docs_dev env) = Inr tree) \<longrightarrow>
             latest_and_index env n = (Inl AttributeError, []))"
    if "type \<in> {''modules'', ''demo''} \<and>
        source \<in> set (fs_glob env (''ontology/'' @ type @ ''/*/*/*'')) \<and>
        endswith source ''.ttl'' \<and> re_match type source = None"
  proof -
    from that have d: "index_data (fs_glob env) = Inl AttributeError"
      using data_aborts [of type source "fs_glob env"] by (simp add: malformed_def)
    then have l: "local_create_index_file env = (Inl AttributeError, [])"
      by (simp add: local_create_index_file_def local_data_eq)
    from d have "index_main env argv = Inl AttributeError"
      by (simp add: index_main_def index_create_index_file_def)
    moreover from l have "latest_and_index env n = (Inl AttributeError, [])"
      if "n > 0 \<and> (\<exists>tree. create_latest_folders (docs_dev env) = Inr tree)" for n
      using that by (auto simp: latest_and_index_def)
    ultimately show ?thesis using l by blast
  qed
  from a b c show ?thesis by blast
qed

theorem malformed_path_fatal_witness:
  "index_scan ''modules'' (stray_glob ''ontology/modules/*/*/*'') [] = Inl AttributeError
   \<and> index_scan ''modules'' ([] @ ''ontology/modules/actorODP/0.1/notes.txt'' # []) [] = Inr []
   \<and> index_main (base_env\<lparr>fs_glob := stray_glob\<rparr>) [] = Inl AttributeError
   \<and> local_create_index_file (base_env\<lparr>fs_glob := stray_glob\<rparr>) = (Inl AttributeError, [])"
proof -
  have n: "\<not> endswith ''ontology/modules/actorODP/0.1/notes.txt'' ''.ttl''"
    by code_simp
  have m: "endswith ''ontology/modules/stray.ttl'' ''.ttl'' \<and>
           re_match ''modules'' ''ontology/modules/stray.ttl'' = None"
    by code_simp
  have g: "''ontology/modules/stray.ttl'' \<in>
             set (fs_glob (base_env\<lparr>fs_glob := stray_glob\<rparr>) (''ontology/'' @ ''modules'' @ ''/*/*/*''))"
    by (simp add: stray_glob_def)
  have s: "stray_glob ''ontology/modules/*/*/*'' =
             [''ontology/modules/actorODP/0.1/notes.txt''] @ ''ontology/modules/stray.ttl'' # []"
    by (simp add: stray_glob_def)
  from malformed_path_fatal
    [of "''ontology/modules/actorODP/0.1/notes.txt''" "''modules''" "[]" "[]" "[]"] n
  have a: "index_scan ''modules'' ([] @ ''ontology/modules/actorODP/0.1/notes.txt'' # []) [] = Inr []"
    by simp
  from malformed_path_fatal
    [of "''ontology/modules/stray.ttl''" "''modules''"
        "[''ontology/modules/actorODP/0.1/notes.txt'']" "[]" "[]"
        "base_env\<lparr>fs_glob := stray_glob\<rparr>" "[]"] m g
  have b: "index_scan ''modules'' (stray_glob ''ontology/modules/*/*/*'') [] = Inl AttributeError
     \<and> index_main (base_env\<lparr>fs_glob := stray_glob\<rparr>) [] = Inl AttributeError
     \<and> local_create_index_file (base_env\<lparr>fs_glob := stray_glob\<rparr>) = (Inl AttributeError, [])"
    unfolding s by blast
  from a b show ?thesis by blast
qed

lemma render_compile_fails:
  "read_file env t = Inr source \<Longrightarrow> compile env source = Inl e \<Longrightarrow>
     render_index env t f data = Inl e"
  by (simp add: render_index_def)

lemma render_template_fails:
  "read_file env t = Inr source \<Longrightarrow> compile env source = Inr template \<Longrightarrow>
   open_write env f = None \<Longrightarrow> template data = Inl e \<Longrightarrow>
     render_index env t f data = Inl e"
  by (simp add: render_index_def)

lemma render_write_fails:
  "read_file env t = Inr source \<Longrightarrow> compile env source = Inr template \<Longrightarrow>
   open_write env f = None \<Longrightarrow> template data = Inr text \<Longrightarrow> write_file env f text = Some e \<Longrightarrow>
     render_index env t f data = Inl e"
  by (simp add: render_index_def)

lemma render_open_fails:
  "read_file env t = Inr source \<Longrightarrow> compile env source = Inr template \<Longrightarrow>
   open_write env f = Some e \<Longrightarrow> render_index env t f data = Inl e"
  by (simp add: render_index_def)

text \<open>
  Claim C4. When compiling the template, rendering it, or opening or writing the output
  file raises an exception, the rendering ends with that exception. The index step of
  the local driver then catches it, reports it and returns the failure flag, and
  \<open>main\<close> goes on to the warning and the summary; in the standalone script the same
  exception leaves \<open>main\<close> unhandled.
\<close>

theorem render_failure_handling:
  "(read_file env t = Inr source \<and> compile env source = Inl e \<longrightarrow>
      render_index env t f data = Inl e)
   \<and> (read_file env t = Inr source \<and> compile env source = Inr template \<and>
        open_write env f = None \<and> template data = Inl e \<longrightarrow>
      render_index env t f data = Inl e)
   \<and> (read_file env t = Inr source \<and> compile env source = Inr template \<and>
        (open_write env f = Some e \<or>
         open_write env f = None \<and> template data = Inr text \<and> write_file env f text = Some e) \<longrightarrow>
      render_index env t f data = Inl e)
   \<and> (local_data (fs_glob env) = Inr data \<and>
        render_index env ''index.hbs'' ''docs/dev/index.html'' data = Inl e \<and> is_Exception e \<longrightarrow>
          local_create_index_file env = (Inr False, [Said (IndexFailed e)]) \<and>
          (\<forall>events1 events2 events3 success_count fail_count tree.
             check_java env = (Inr True, events1) \<and> check_widoco env = (True, events2) \<and>
             find_ontology_files env \<noteq> [] \<and>
             generate_all env (find_ontology_files env) 0 0 =
               (Inr (success_count, fail_count), events3) \<and>
             success_count > 0 \<and> create_latest_folders (docs_dev env) = Inr tree \<longrightarrow>
               main env =
                 (if fail_count > 0 then Exited 1 else Returned,
                  events1 @ events2 @ events3 @
                  [Said (IndexFailed e), Said IndexWarning,
                   Said (Summary (length (find_ontology_files env)) success_count fail_count),
                   Said (if fail_count > 0 then SomeFailed else AllSucceeded)])))
   \<and> (index_data (fs_glob env) = Inr data \<and>
        render_index env ''index.hbs''
          (if length argv > 1 then argv ! 1 else ''docs/index.html'') data = Inl e \<longrightarrow>
          index_main env argv = Inl e)"
proof -
  have p1: "read_file env t = Inr source \<and> compile env source = Inl e \<longrightarrow>
      render_index env t f data = Inl e"
    using render_compile_fails by blast
  have p2: "read_file env t = Inr source \<and> compile env source = Inr template \<and>
        open_write env f = None \<and> template data = Inl e \<longrightarrow>
      render_index env t f data = Inl e"
    using render_template_fails by blast
  have p3: "read_file env t = Inr source \<and> compile env source = Inr template \<and>
        (open_write env f = Some e \<or>
         open_write env f = None \<and> template data = Inr text \<and> write_file env f text = Some e) \<longrightarrow>
      render_index env t f data = Inl e"
    using render_write_fails render_open_fails by blast
  have p4: "local_data (fs_glob env) = Inr data \<and>
        render_index env ''index.hbs'' ''docs/dev/index.html'' data = Inl e \<and> is_Exception e \<longrightarrow>
          local_create_index_file env = (Inr False, [Said (IndexFailed e)]) \<and>
          (\<forall>events1 events2 events3 success_count fail_count tree.
             check_java env = (Inr True, events1) \<and> check_widoco env = (True, events2) \<and>
             find_ontology_files env \<noteq> [] \<and>
             generate_all env (find_ontology_files env) 0 0 =
               (Inr (success_count, fail_count), events3) \<and>
             success_count > 0 \<and> create_latest_folders (docs_dev env) = Inr tree \<longrightarrow>
               main env =
                 (if fail_count > 0 then Exited 1 else Returned,
                  events1 @ events2 @ events3 @
                  [Said (IndexFailed e), Said IndexWarning,
                   Said (Summary (length (find_ontology_files env)) success_count fail_count),
                   Said (if fail_count > 0 then SomeFailed else AllSucceeded)]))"
  proof (intro impI conjI allI, goal_cases)
    case 1
    then show ?case by (simp add: local_create_index_file_def)
  next
    case (2 events1 events2 events3 success_count fail_count tree)
    then have l: "local_create_index_file env = (Inr False, [Said (IndexFailed e)])"
      by (simp add: local_create_index_file_def)
    from 2 have j: "check_java env = (Inr True, events1)"
      and w: "check_widoco env = (True, events2)"
      and n: "find_ontology_files env \<noteq> []"
      and g: "generate_all env (find_ontology_files env) 0 0 =
               (Inr (success_count, fail_count), events3)"
      and s: "success_count > 0" and c: "create_latest_folders (docs_dev env) = Inr tree"
      by blast+
    from l s c have "latest_and_index env success_count =
        (Inr (), [Said (IndexFailed e), Said IndexWarning])"
      by (simp add: latest_and_index_def)
    from main_completes [OF j w n g this] show ?case by simp
  qed
  have p5: "index_data (fs_glob env) = Inr data \<and>
        render_index env ''index.hbs''
          (if length argv > 1 then argv ! 1 else ''docs/index.html'') data = Inl e \<longrightarrow>
          index_main env argv = Inl e"
    by (simp add: index_main_def index_create_index_file_def)
  show ?thesis
    by (intro conjI) (rule p1, rule p2, rule p3, rule p4, rule p5)
qed

theorem render_failure_handling_witness:
  "local_create_index_file broken_template_env =
     (Inr False, [Said (IndexFailed (OtherError ''template''))])
   \<and> index_main broken_template_env [] = Inl (OtherError ''template'')
   \<and> fst (main broken_template_env) = Returned
   \<and> Said IndexWarning \<in> set (snd (main broken_template_env))
   \<and> Said (Summary 3 3 0) \<in> set (snd (main broken_template_env))"
proof -
  let ?env = broken_template_env
  let ?e = "OtherError ''template''"
  let ?src = "''{{#each data.core}}{{name}}{{/each}}''"
  have r: "read_file ?env ''index.hbs'' = Inr ?src"
    by (simp add: broken_template_env_def base_env_def)
  have c: "compile ?env ?src = Inl ?e"
    by (simp add: broken_template_env_def)
  have g: "fs_glob ?env = example_glob"
    by (simp add: broken_template_env_def base_env_def)
  have "case local_data example_glob of Inl e \<Rightarrow> False | Inr d \<Rightarrow> True"
    by code_simp
  then obtain d where d: "local_data (fs_glob ?env) = Inr d"
    unfolding g by (cases "local_data example_glob") auto
  then have d': "index_data (fs_glob ?env) = Inr d"
    by (simp add: local_data_eq)
  have x: "is_Exception ?e" by (simp add: is_Exception_def)
  have j: "fst (check_java ?env) = Inr True" and w: "fst (check_widoco ?env) = True"
    and n: "length (find_ontology_files ?env) = 3"
    and ga: "fst (generate_all ?env (find_ontology_files ?env) 0 0) = Inr (3, 0)"
    and t: "case create_latest_folders (docs_dev ?env) of Inl e \<Rightarrow> False | Inr tree \<Rightarrow> True"
    by code_simp+
  from j obtain events1 where j': "check_java ?env = (Inr True, events1)"
    by (cases "check_java ?env") auto
  from w obtain events2 where w': "check_widoco ?env = (True, events2)"
    by (cases "check_widoco ?env") auto
  from ga obtain events3 where ga': "generate_all ?env (find_ontology_files ?env) 0 0 =
      (Inr (3, 0), events3)"
    by (cases "generate_all ?env (find_ontology_files ?env) 0 0") auto
  from t obtain tree where t': "create_latest_folders (docs_dev ?env) = Inr tree"
    by (cases "create_latest_folders (docs_dev ?env)") auto
  from n have n': "find_ontology_files ?env \<noteq> []" by auto
  note th = render_failure_handling [of ?env _ ?src ?e _ d]
  from th [of "''index.hbs''" "''docs/dev/index.html''"] r c
  have r1: "render_index ?env ''index.hbs'' ''docs/dev/index.html'' d = Inl ?e"
    by blast
  from th [of "''index.hbs''" "''docs/index.html''"] r c
  have r2: "render_index ?env ''index.hbs'' ''docs/index.html'' d = Inl ?e"
    by blast
  from th [of "''index.hbs''" "''docs/dev/index.html''"] d r1 x
  have l: "local_create_index_file ?env = (Inr False, [Said (IndexFailed ?e)])"
    and m: "\<forall>events1 events2 events3 success_count fail_count tree.
             check_java ?env = (Inr True, events1) \<and> check_widoco ?env = (True, events2) \<and>
             find_ontology_files ?env \<noteq> [] \<and>
             generate_all ?env (find_ontology_files ?env) 0 0 =
               (Inr (success_count, fail_count), events3) \<and>
             success_count > 0 \<and> create_latest_folders (docs_dev ?env) = Inr tree \<longrightarrow>
               main ?env =
                 (if fail_count > 0 then Exited 1 else Returned,
                  events1 @ events2 @ events3 @
                  [Said (IndexFailed ?e), Said IndexWarning,
                   Said (Summary (length (find_ontology_files ?env)) success_count fail_count),
                   Said (if fail_count > 0 then SomeFailed else AllSucceeded)])"
    by blast+
  from th [of "''index.hbs''" "''docs/index.html''" _ _ "[]"] d' r2
  have i: "index_main ?env [] = Inl ?e"
    by simp
  from m j' w' n' ga' t' have "main ?env =
      (Returned, events1 @ events2 @ events3 @
         [Said (IndexFailed ?e), Said IndexWarning, Said (Summary 3 3 0), Said AllSucceeded])"
    unfolding n [symmetric] by force
  with l i show ?thesis by simp
qed

lemma handle_tool_error_Exception:
  "is_Exception e \<Longrightarrow> fst (handle_tool_error e) = Inr False"
  by (simp add: handle_tool_error_def)

lemma tool_runs_handle: "tool_runs (before @ snd (handle_tool_error e)) = tool_runs before"
  by (simp add: handle_tool_error_def tool_runs_def is_run_def)

lemma generate_documentation_prepared:
  assumes "prepared env f"
  shows "generate_documentation env f =
     (let output_dir = output_dir_of f;
          before = [Said (Processing f), MadeDir output_dir,
                    Ran (widoco_cmd f output_dir) (Some 300)];
          index_en = output_dir @ [''index-en.html''];
          index_html = output_dir @ [''index.html'']
      in case tool_result env f of
           Raised e \<Rightarrow> (fst (handle_tool_error e), before @ snd (handle_tool_error e))
         | Completed returncode stderr \<Rightarrow>
             if returncode = 0 then
               (if path_exists env (path_str index_en) then
                  (case rename env index_en index_html of
                     Some e \<Rightarrow> (fst (handle_tool_error e),
                                before @ [Said ToolSucceeded] @ snd (handle_tool_error e))
                   | None \<Rightarrow> (Inr True, before @ [Said ToolSucceeded, Renamed index_en index_html]))
                else (Inr True, before @ [Said ToolSucceeded]))
             else (Inr False, before @ [Said (ToolFailed returncode)]))"
proof -
  from assms obtain rel where f: "f = ONTOLOGY_DIR # rel" and m: "mkdir env (DOCS_DIR @ butlast rel) = None"
    by (cases f) (auto simp: prepared_def output_dir_of_def)
  show ?thesis
    unfolding f using m
    by (auto simp: generate_documentation_def output_dir_of_def tool_result_def Let_def
          split: run_result.splits option.splits)
qed

lemma tool_runs_prepared:
  assumes "prepared env f"
  shows "tool_runs (snd (generate_documentation env f)) =
           [Ran (widoco_cmd f (output_dir_of f)) (Some 300)]"
  unfolding generate_documentation_prepared [OF assms]
  by (simp add: Let_def tool_runs_def is_run_def handle_tool_error_def
        split: run_result.splits option.splits)

lemma tool_fails_False:
  assumes "contained env f" and "tool_fails env f"
  shows "fst (generate_documentation env f) = Inr False"
proof -
  from assms(1) have p: "prepared env f" by (simp add: contained_def)
  show ?thesis
    unfolding generate_documentation_prepared [OF p]
    using assms
    by (auto simp: Let_def contained_def tool_fails_def handle_tool_error_Exception
          split: run_result.splits)
qed

lemma contained_returns:
  assumes "contained env f"
  shows "\<exists>ok. fst (generate_documentation env f) = Inr ok"
proof -
  from assms have p: "prepared env f" by (simp add: contained_def)
  show ?thesis
    unfolding generate_documentation_prepared [OF p]
    using assms
    by (auto simp: Let_def contained_def handle_tool_error_Exception
          split: run_result.splits option.splits)
qed

lemma generate_all_result:
  assumes "\<forall>f \<in> set files. \<exists>ok. fst (generate_documentation env f) = Inr ok"
  shows "generate_all env files s0 f0 =
     (Inr (s0 + length (filter (\<lambda>f. fst (generate_documentation env f) = Inr True) files),
           f0 + length (filter (\<lambda>f. fst (generate_documentation env f) = Inr False) files)),
      concat (map (\<lambda>f. snd (generate_documentation env f)) files))"
  using assms
proof (induction files arbitrary: s0 f0)
  case Nil
  show ?case by simp
next
  case (Cons f files)
  then obtain ok where ok: "fst (generate_documentation env f) = Inr ok" by auto
  then obtain ev where g: "generate_documentation env f = (Inr ok, ev)"
    by (cases "generate_documentation env f") auto
  from Cons have "\<forall>f \<in> set files. \<exists>ok. fst (generate_documentation env f) = Inr ok" by simp
  note ih = Cons.IH [OF this]
  show ?case
    by (cases ok) (simp_all add: g ih)
qed

lemma tool_runs_concat:
  "\<forall>f \<in> set files. prepared env f \<Longrightarrow>
   tool_runs (concat (map (\<lambda>f. snd (generate_documentation env f)) files)) =
     map (\<lambda>f. Ran (widoco_cmd f (output_dir_of f)) (Some 300)) files"
proof (induction files)
  case Nil
  show ?case by (simp add: tool_runs_def)
next
  case (Cons f files)
  then have p: "prepared env f" by simp
  from Cons have ih: "tool_runs (concat (map (\<lambda>f. snd (generate_documentation env f)) files)) =
     map (\<lambda>f. Ran (widoco_cmd f (output_dir_of f)) (Some 300)) files"
    by simp
  have "tool_runs (xs @ ys) = tool_runs xs @ tool_runs ys" for xs ys
    by (simp add: tool_runs_def)
  then show ?case
    by (simp add: tool_runs_prepared [OF p] ih)
qed

lemma length_filter_mono:
  "\<forall>x \<in> set xs. P x \<longrightarrow> Q x \<Longrightarrow> length (filter P xs) \<le> length (filter Q xs)"
  by (induction xs) auto

lemma length_filter_split:
  "\<forall>x \<in> set xs. \<exists>ok. g x = Inr ok \<Longrightarrow>
   length (filter (\<lambda>x. g x = Inr True) xs) + length (filter (\<lambda>x. g x = Inr False) xs) =
     length xs"
  for g :: "'a \<Rightarrow> exn + bool"
  by (induction xs) auto

lemma prepared_failures:
  assumes "prepared env f"
  shows "tool_result env f = Completed returncode stderr \<Longrightarrow> returncode \<noteq> 0 \<Longrightarrow>
           fst (generate_documentation env f) = Inr False"
    and "tool_result env f = Raised TimeoutExpired \<Longrightarrow>
           fst (generate_documentation env f) = Inr False"
    and "tool_result env f = Raised e \<Longrightarrow> is_Exception e \<Longrightarrow>
           fst (generate_documentation env f) = Inr False"
  unfolding generate_documentation_prepared [OF assms]
  by (simp_all add: Let_def handle_tool_error_def)

text \<open>
  Claim C5. For a file whose output directory could be made, a nonzero exit code of the
  documentation tool, the timeout of 300 seconds and an exception of the invocation
  each make \<open>generate_documentation\<close> return \<open>False\<close>. When no file of the batch lets an
  exception escape, the loop ends with the two counters holding the numbers of files
  that returned \<open>True\<close> and \<open>False\<close>, which add up to the number of files; the tool
  has been invoked exactly once for every file, in order, each time with the timeout of
  300 seconds; and every file on which the tool failed is among those counted as
  failed.
\<close>

theorem failures_counted:
  "(prepared env f \<and> tool_result env f = Completed returncode stderr \<and> returncode \<noteq> 0 \<longrightarrow>
      fst (generate_documentation env f) = Inr False)
   \<and> (prepared env f \<and> tool_result env f = Raised TimeoutExpired \<longrightarrow>
      fst (generate_documentation env f) = Inr False)
   \<and> (prepared env f \<and> tool_result env f = Raised e \<and> is_Exception e \<longrightarrow>
      fst (generate_documentation env f) = Inr False)
   \<and> ((\<forall>f \<in> set files. contained env f) \<longrightarrow>
        generate_all env files 0 0 =
          (Inr (length (filter (\<lambda>f. fst (generate_documentation env f) = Inr True) files),
                length (filter (\<lambda>f. fst (generate_documentation env f) = Inr False) files)),
           concat (map (\<lambda>f. snd (generate_documentation env f)) files))
        \<and> length (filter (\<lambda>f. fst (generate_documentation env f) = Inr True) files) +
          length (filter (\<lambda>f. fst (generate_documentation env f) = Inr False) files) =
            length files
        \<and> tool_runs (snd (generate_all env files 0 0)) =
            map (\<lambda>f. Ran (widoco_cmd f (output_dir_of f)) (Some 300)) files
        \<and> length (filter (tool_fails env) files) \<le>
            length (filter (\<lambda>f. fst (generate_documentation env f) = Inr False) files))"
proof -
  have p1: "prepared env f \<and> tool_result env f = Completed returncode stderr \<and> returncode \<noteq> 0 \<longrightarrow>
      fst (generate_documentation env f) = Inr False"
    using prepared_failures(1) by blast
  have p2: "prepared env f \<and> tool_result env f = Raised TimeoutExpired \<longrightarrow>
      fst (generate_documentation env f) = Inr False"
    using prepared_failures(2) by blast
  have p3: "prepared env f \<and> tool_result env f = Raised e \<and> is_Exception e \<longrightarrow>
      fst (generate_documentation env f) = Inr False"
    using prepared_failures(3) by blast
  have p4: "(\<forall>f \<in> set files. contained env f) \<longrightarrow>
        generate_all env files 0 0 =
          (Inr (length (filter (\<lambda>f. fst (generate_documentation env f) = Inr True) files),
                length (filter (\<lambda>f. fst (generate_documentation env f) = Inr False) files)),
           concat (map (\<lambda>f. snd (generate_documentation env f)) files))
        \<and> length (filter (\<lambda>f. fst (generate_documentation env f) = Inr True) files) +
          length (filter (\<lambda>f. fst (generate_documentation env f) = Inr False) files) =
            length files
        \<and> tool_runs (snd (generate_all env files 0 0)) =
            map (\<lambda>f. Ran (widoco_cmd f (output_dir_of f)) (Some 300)) files
        \<and> length (filter (tool_fails env) files) \<le>
            length (filter (\<lambda>f. fst (generate_documentation env f) = Inr False) files)"
  proof
    assume c: "\<forall>f \<in> set files. contained env f"
    then have r: "\<forall>f \<in> set files. \<exists>ok. fst (generate_documentation env f) = Inr ok"
      using contained_returns by blast
    from c have pr: "\<forall>f \<in> set files. prepared env f"
      by (simp add: contained_def)
    note g = generate_all_result [OF r, of 0 0, simplified]
    have t: "tool_runs (snd (generate_all env files 0 0)) =
            map (\<lambda>f. Ran (widoco_cmd f (output_dir_of f)) (Some 300)) files"
      unfolding g using tool_runs_concat [OF pr] by simp
    have l: "length (filter (tool_fails env) files) \<le>
            length (filter (\<lambda>f. fst (generate_documentation env f) = Inr False) files)"
      using c tool_fails_False by (intro length_filter_mono) blast
    from g length_filter_split [OF r] t l
    show "generate_all env files 0 0 =
          (Inr (length (filter (\<lambda>f. fst (generate_documentation env f) = Inr True) files),
                length (filter (\<lambda>f. fst (generate_documentation env f) = Inr False) files)),
           concat (map (\<lambda>f. snd (generate_documentation env f)) files))
        \<and> length (filter (\<lambda>f. fst (generate_documentation env f) = Inr True) files) +
          length (filter (\<lambda>f. fst (generate_documentation env f) = Inr False) files) =
            length files
        \<and> tool_runs (snd (generate_all env files 0 0)) =
            map (\<lambda>f. Ran (widoco_cmd f (output_dir_of f)) (Some 300)) files
        \<and> length (filter (tool_fails env) files) \<le>
            length (filter (\<lambda>f. fst (generate_documentation env f) = Inr False) files)"
      by (intro conjI)
  qed
  show ?thesis
    by (intro conjI) (rule p1, rule p2, rule p3, rule p4)
qed

theorem failures_counted_witness:
  "fst (generate_all flaky_env (find_ontology_files flaky_env) 0 0) = Inr (1, 2)
   \<and> tool_runs (snd (generate_all flaky_env (find_ontology_files flaky_env) 0 0)) =
       map (\<lambda>f. Ran (widoco_cmd f (output_dir_of f)) (Some 300))
         [[''ontology'', ''modules'', ''actorODP'', ''0.1'', ''actorODP.ttl''],
          [''ontology'', ''modules'', ''actorODP'', ''0.2'', ''actorODP.ttl''],
          [''ontology'', ''modules'', ''widgetX'', ''0.1'', ''widgetX.ttl'']]
   \<and> fst (generate_documentation flaky_env
        [''ontology'', ''modules'', ''actorODP'', ''0.1'', ''actorODP.ttl'']) = Inr False
   \<and> fst (generate_documentation flaky_env
        [''ontology'', ''modules'', ''actorODP'', ''0.2'', ''actorODP.ttl'']) = Inr False"
proof -
  let ?f1 = "[''ontology'', ''modules'', ''actorODP'', ''0.1'', ''actorODP.ttl'']"
  let ?f2 = "[''ontology'', ''modules'', ''actorODP'', ''0.2'', ''actorODP.ttl'']"
  let ?f3 = "[''ontology'', ''modules'', ''widgetX'', ''0.1'', ''widgetX.ttl'']"
  have fs: "find_ontology_files flaky_env = [?f1, ?f2, ?f3]"
    by code_simp
  have c: "\<forall>f \<in> set (find_ontology_files flaky_env). contained flaky_env f"
    by code_simp
  have p: "prepared flaky_env ?f1" "prepared flaky_env ?f2"
    by code_simp+
  have r1: "tool_result flaky_env ?f1 = Completed 1 ''error''"
    and r2: "tool_result flaky_env ?f2 = Raised TimeoutExpired"
    by code_simp+
  have n: "length (filter (\<lambda>f. fst (generate_documentation flaky_env f) = Inr True)
             (find_ontology_files flaky_env)) = 1"
    "length (filter (\<lambda>f. fst (generate_documentation flaky_env f) = Inr False)
             (find_ontology_files flaky_env)) = 2"
    by code_simp+
  note t = failures_counted [of flaky_env _ _ _ _ "find_ontology_files flaky_env"]
  from t c n have a: "fst (generate_all flaky_env (find_ontology_files flaky_env) 0 0) = Inr (1, 2)"
    by simp
  from t c have b: "tool_runs (snd (generate_all flaky_env (find_ontology_files flaky_env) 0 0)) =
       map (\<lambda>f. Ran (widoco_cmd f (output_dir_of f)) (Some 300)) (find_ontology_files flaky_env)"
    by blast
  from failures_counted [of flaky_env ?f1 1 "''error''"] p r1
  have d: "fst (generate_documentation flaky_env ?f1) = Inr False"
    by simp
  from failures_counted [of flaky_env ?f2] p r2
  have e: "fst (generate_documentation flaky_env ?f2) = Inr False"
    by simp
  from a b d e show ?thesis
    unfolding fs by simp
qed

lemma java_missing:
  "fst (check_java env) = Inr False \<Longrightarrow>
     main env = (Exited 1, [Ran [''java'', ''-version''] None, Said JavaMissing])"
  by (auto simp: main_def check_java_def split: run_result.splits if_splits)

lemma java_found:
  "fst (check_java env) = Inr True \<Longrightarrow>
     check_java env = (Inr True, [Ran [''java'', ''-version''] None, Said JavaFound])"
  by (auto simp: check_java_def split: run_result.splits if_splits)

lemma jar_missing:
  "fst (check_java env) = Inr True \<Longrightarrow> \<not> fst (check_widoco env) \<Longrightarrow>
     main env =
       (Exited 1, [Ran [''java'', ''-version''] None, Said JavaFound, Said JarMissing])"
  by (auto simp: main_def java_found check_widoco_def split: if_splits)

lemma jar_found: "fst (check_widoco env) \<Longrightarrow> check_widoco env = (True, [Said JarFound])"
  by (auto simp: check_widoco_def split: if_splits)

lemma no_files:
  "fst (check_java env) = Inr True \<Longrightarrow> fst (check_widoco env) \<Longrightarrow>
   find_ontology_files env = [] \<Longrightarrow> fst (main env) = Exited 1"
  by (simp add: main_def java_found jar_found)

lemma some_failed:
  assumes "fst (check_java env) = Inr True" and "fst (check_widoco env)"
    and "fst (generate_all env (find_ontology_files env) 0 0) = Inr (s, fl)" and "fl > 0"
  shows "exit_status (fst (main env)) = 1"
proof -
  from assms(3,4) have n: "find_ontology_files env \<noteq> []" by auto
  from assms(3) obtain events3 where
    g: "generate_all env (find_ontology_files env) 0 0 = (Inr (s, fl), events3)"
    by (cases "generate_all env (find_ontology_files env) 0 0") auto
  obtain r events4 where l: "latest_and_index env s = (r, events4)"
    by (cases "latest_and_index env s")
  show ?thesis
  proof (cases r)
    case (Inl e)
    from main_uncaught [OF java_found [OF assms(1)] jar_found [OF assms(2)] n g l [unfolded Inl]]
    show ?thesis by simp
  next
    case (Inr u)
    from main_completes [OF java_found [OF assms(1)] jar_found [OF assms(2)] n g l [unfolded Inr]]
      assms(4)
    show ?thesis by simp
  qed
qed

lemma all_succeeded:
  assumes "fst (check_java env) = Inr True" and "fst (check_widoco env)"
    and "find_ontology_files env \<noteq> []"
    and "fst (generate_all env (find_ontology_files env) 0 0) = Inr (s, 0)"
    and "fst (latest_and_index env s) = Inr ()"
  shows "fst (main env) = Returned"
proof -
  from assms(4) obtain events3 where
    g: "generate_all env (find_ontology_files env) 0 0 = (Inr (s, 0), events3)"
    by (cases "generate_all env (find_ontology_files env) 0 0") auto
  from assms(5) obtain events4 where l: "latest_and_index env s = (Inr (), events4)"
    by (cases "latest_and_index env s") auto
  from main_completes [OF java_found [OF assms(1)] jar_found [OF assms(2)] assms(3) g l]
  show ?thesis by simp
qed

lemma fail_count_positive:
  assumes "\<forall>f \<in> set files. contained env f"
  shows "(\<exists>s fl. fst (generate_all env files 0 0) = Inr (s, fl) \<and>
            (fl > 0 \<longleftrightarrow> (\<exists>f \<in> set files. fst (generate_documentation env f) = Inr False)))"
proof -
  from assms have r: "\<forall>f \<in> set files. \<exists>ok. fst (generate_documentation env f) = Inr ok"
    using contained_returns by blast
  show ?thesis
    unfolding generate_all_result [OF r, of 0 0, simplified]
    by (auto simp: filter_empty_conv)
qed

text \<open>
  Claim C6, as amended. \<open>main\<close> exits with 1 when Java is missing and when the jar is
  missing, in both cases with nothing done but the check of Java; it exits with 1
  when no ontology file is found; the process ends with status 1 when the counter of
  failed files is positive at the end of the loop, which for a batch that lets no
  exception escape is the case exactly when some file returned \<open>False\<close>. When Java and
  the jar are present, at least one file is found, no file failed and the steps for the
  latest folders and the index raise nothing, \<open>main\<close> returns and the status is 0.
\<close>

theorem exit_codes:
  "(fst (check_java env) = Inr False \<longrightarrow>
      main env = (Exited 1, [Ran [''java'', ''-version''] None, Said JavaMissing]))
   \<and> (fst (check_java env) = Inr True \<and> \<not> fst (check_widoco env) \<longrightarrow>
      main env =
        (Exited 1, [Ran [''java'', ''-version''] None, Said JavaFound, Said JarMissing]))
   \<and> (fst (check_java env) = Inr True \<and> fst (check_widoco env) \<and>
        find_ontology_files env = [] \<longrightarrow> fst (main env) = Exited 1)
   \<and> (fst (check_java env) = Inr True \<and> fst (check_widoco env) \<and>
        fst (generate_all env (find_ontology_files env) 0 0) = Inr (s, fl) \<and> fl > 0 \<longrightarrow>
          exit_status (fst (main env)) = 1)
   \<and> (fst (check_java env) = Inr True \<and> fst (check_widoco env) \<and>
        find_ontology_files env \<noteq> [] \<and>
        fst (generate_all env (find_ontology_files env) 0 0) = Inr (s, 0) \<and>
        fst (latest_and_index env s) = Inr () \<longrightarrow>
          fst (main env) = Returned \<and> exit_status (fst (main env)) = 0)
   \<and> ((\<forall>f \<in> set (find_ontology_files env). contained env f) \<longrightarrow>
        (\<exists>s fl. fst (generate_all env (find_ontology_files env) 0 0) = Inr (s, fl) \<and>
           (fl > 0 \<longleftrightarrow> (\<exists>f \<in> set (find_ontology_files env).
                          fst (generate_documentation env f) = Inr False))))"
proof -
  have p1: "fst (check_java env) = Inr False \<longrightarrow>
      main env = (Exited 1, [Ran [''java'', ''-version''] None, Said JavaMissing])"
    using java_missing by blast
  have p2: "fst (check_java env) = Inr True \<and> \<not> fst (check_widoco env) \<longrightarrow>
      main env =
        (Exited 1, [Ran [''java'', ''-version''] None, Said JavaFound, Said JarMissing])"
    using jar_missing by blast
  have p3: "fst (check_java env) = Inr True \<and> fst (check_widoco env) \<and>
        find_ontology_files env = [] \<longrightarrow> fst (main env) = Exited 1"
    using no_files by blast
  have p4: "fst (check_java env) = Inr True \<and> fst (check_widoco env) \<and>
        fst (generate_all env (find_ontology_files env) 0 0) = Inr (s, fl) \<and> fl > 0 \<longrightarrow>
          exit_status (fst (main env)) = 1"
    using some_failed by blast
  have p5: "fst (check_java env) = Inr True \<and> fst (check_widoco env) \<and>
        find_ontology_files env \<noteq> [] \<and>
        fst (generate_all env (find_ontology_files env) 0 0) = Inr (s, 0) \<and>
        fst (latest_and_index env s) = Inr () \<longrightarrow>
          fst (main env) = Returned \<and> exit_status (fst (main env)) = 0"
    using all_succeeded by force
  have p6: "(\<forall>f \<in> set (find_ontology_files env). contained env f) \<longrightarrow>
        (\<exists>s fl. fst (generate_all env (find_ontology_files env) 0 0) = Inr (s, fl) \<and>
           (fl > 0 \<longleftrightarrow> (\<exists>f \<in> set (find_ontology_files env).
                          fst (generate_documentation env f) = Inr False)))"
    using fail_count_positive by blast
  show ?thesis
    by (intro conjI) (rule p1, rule p2, rule p3, rule p4, rule p5, rule p6)
qed

text \<open>
  Claim C6 as stated fails: with Java and the jar present and no ontology file, every
  file of the empty batch succeeds and \<open>main\<close> exits with 1.
\<close>

theorem no_files_counterexample:
  "fst (check_java empty_env) = Inr True \<and> fst (check_widoco empty_env)
   \<and> find_ontology_files empty_env = []
   \<and> fst (main empty_env) = Exited 1 \<and> exit_status (fst (main empty_env)) = 1"
  by code_simp

theorem exit_codes_witness:
  "main no_java_env = (Exited 1, [Ran [''java'', ''-version''] None, Said JavaMissing])
   \<and> main no_jar_env =
       (Exited 1, [Ran [''java'', ''-version''] None, Said JavaFound, Said JarMissing])
   \<and> fst (main empty_env) = Exited 1
   \<and> exit_status (fst (main flaky_env)) = 1
   \<and> fst (main base_env) = Returned \<and> exit_status (fst (main base_env)) = 0
   \<and> (\<exists>f \<in> set (find_ontology_files flaky_env).
         fst (generate_documentation flaky_env f) = Inr False)"
proof -
  have j: "fst (check_java no_java_env) = Inr False"
    "fst (check_java no_jar_env) = Inr True" "\<not> fst (check_widoco no_jar_env)"
    "fst (check_java empty_env) = Inr True" "fst (check_widoco empty_env)"
    "find_ontology_files empty_env = []"
    "fst (check_java flaky_env) = Inr True" "fst (check_widoco flaky_env)"
    "fst (generate_all flaky_env (find_ontology_files flaky_env) 0 0) = Inr (1, 2)"
    "fst (check_java base_env) = Inr True" "fst (check_widoco base_env)"
    "find_ontology_files base_env \<noteq> []"
    "fst (generate_all base_env (find_ontology_files base_env) 0 0) = Inr (3, 0)"
    "fst (latest_and_index base_env 3) = Inr ()"
    "\<forall>f \<in> set (find_ontology_files flaky_env). contained flaky_env f"
    by code_simp+
  from exit_codes [of no_java_env] j(1)
  have a: "main no_java_env = (Exited 1, [Ran [''java'', ''-version''] None, Said JavaMissing])"
    by blast
  from exit_codes [of no_jar_env] j(2,3)
  have b: "main no_jar_env =
       (Exited 1, [Ran [''java'', ''-version''] None, Said JavaFound, Said JarMissing])"
    by blast
  from exit_codes [of empty_env] j(4,5,6)
  have c: "fst (main empty_env) = Exited 1"
    by blast
  from exit_codes [of flaky_env 1 2] j(7,8,9)
  have d: "exit_status (fst (main flaky_env)) = 1"
    by simp
  from exit_codes [of base_env 3] j(10,11,12,13,14)
  have e: "fst (main base_env) = Returned \<and> exit_status (fst (main base_env)) = 0"
    by blast
  from exit_codes [of flaky_env] j(9,15)
  have f: "\<exists>f \<in> set (find_ontology_files flaky_env).
         fst (generate_documentation flaky_env f) = Inr False"
    by auto
  from a b c d e f show ?thesis by blast
qed

end
